theory Spec2Isabelle
  imports Main
begin

section \<open>RDF terms and quads\<close>

text \<open>
  The RDF/JS data model the form works on (\<^verbatim>\<open>@rdfjs/types\<close>, re-exported by
  \<^verbatim>\<open>src/lib/types.ts\<close>): a term is a named node, a blank node, a literal (lexical value,
  language tag, datatype IRI), a variable or the default graph. Terms are compared by
  their kind and their fields, which is the equality of the datatype.
\<close>

datatype rdfterm =
    NamedNode string
  | BlankNode string
  | Literal string string string
  | Variable string
  | DefaultGraph

text \<open>\<^verbatim>\<open>term.value\<close>: every term has one (the default graph's is the empty string).\<close>

fun termValue :: "rdfterm \<Rightarrow> string" where
  "termValue (NamedNode v) = v"
| "termValue (BlankNode v) = v"
| "termValue (Literal v l d) = v"
| "termValue (Variable v) = v"
| "termValue DefaultGraph = []"

text \<open>
  \<^verbatim>\<open>(quad.object as Literal).language\<close>: the cast is unchecked, so on a term that is
  not a literal the property is \<^verbatim>\<open>undefined\<close>, here \<open>None\<close>. A literal without a
  language tag has the empty string.
\<close>

fun language :: "rdfterm \<Rightarrow> string option" where
  "language (Literal v l d) = Some l"
| "language t = None"

record quad =
  subject :: rdfterm
  predicate :: rdfterm
  object :: rdfterm
  graph :: rdfterm

section \<open>JavaScript library functions used by the form\<close>

text \<open>
  JavaScript truthiness of an optional string (\<^verbatim>\<open>if (x)\<close>, \<^verbatim>\<open>if (!x)\<close>): both
  \<^verbatim>\<open>undefined\<close>/\<^verbatim>\<open>null\<close> and the empty string are falsy.
\<close>

fun truthy :: "string option \<Rightarrow> bool" where
  "truthy None = False"
| "truthy (Some s) = (s \<noteq> [])"

text \<open>
  \<^verbatim>\<open>s.split(',')\<close>: the pieces between the separators. The empty string splits into
  one empty piece, never into the empty array.
\<close>

fun split :: "char \<Rightarrow> string \<Rightarrow> string list" where
  "split c [] = [[]]"
| "split c (x # xs) =
     (if x = c then [] # split c xs
      else (case split c xs of
              [] \<Rightarrow> [[x]]
            | w # ws \<Rightarrow> (x # w) # ws))"

text \<open>\<^verbatim>\<open>xs.join(',')\<close>: the empty array joins to the empty string.\<close>

fun join :: "char \<Rightarrow> string list \<Rightarrow> string" where
  "join c [] = []"
| "join c [x] = x"
| "join c (x # y # ys) = x @ c # join c (y # ys)"

text \<open>
  \<^verbatim>\<open>Set.add\<close> on a JavaScript \<^verbatim>\<open>Set\<close>, which keeps insertion order and ignores a
  value it already holds; \<^verbatim>\<open>[...set.values()]\<close> is then the list itself.
\<close>

definition setAdd :: "'a list \<Rightarrow> 'a \<Rightarrow> 'a list" where
  "setAdd s x = (if x \<in> set s then s else s @ [x])"

section \<open>Datasets\<close>

text \<open>
  \<^verbatim>\<open>rdfDataset.dataset(quads)\<close> builds a dataset from the quads of a parser: a set
  that keeps one copy of each quad. The list stands for the set in the order in which the
  library iterates it; insertion order is taken here, the library follows its index.
\<close>

definition rdfDataset :: "quad list \<Rightarrow> quad list" where
  "rdfDataset quads = foldl setAdd [] quads"

text \<open>
  \<^verbatim>\<open>store.addQuads(quads)\<close> of the N3 store, a set of quads as well, with the same
  reading of the order of the list.
\<close>

definition addQuads :: "quad list \<Rightarrow> quad list \<Rightarrow> quad list" where
  "addQuads st quads = foldl setAdd st quads"

text \<open>
  \<^verbatim>\<open>dataset.match(null, p, o)\<close>: the quads with predicate \<open>p\<close> and object \<open>o\<close>,
  whatever their subject and graph.
\<close>

definition match :: "quad list \<Rightarrow> rdfterm \<Rightarrow> rdfterm \<Rightarrow> quad list" where
  "match ds p ob = filter (\<lambda>q. predicate q = p \<and> object q = ob) ds"

text \<open>
  Modelled from the spec: \<^verbatim>\<open>helpers/namespaces\<close> is not among the sources. \<open>rdf\<close>
  builds a named node in the RDF namespace, as in \<^verbatim>\<open>rdf:type\<close>.
\<close>

definition rdf :: "string \<Rightarrow> rdfterm" where
  "rdf name = NamedNode (''http://www.w3.org/1999/02/22-rdf-syntax-ns#'' @ name)"

text \<open>
  Modelled from the spec: \<^verbatim>\<open>helpers/namespaces\<close> is not among the sources. \<open>sh\<close>
  builds a named node in the SHACL namespace; the spec names \<^verbatim>\<open>sh:NodeShape\<close>.
\<close>

definition sh :: "string \<Rightarrow> rdfterm" where
  "sh name = NamedNode (''http://www.w3.org/ns/shacl#'' @ name)"

text \<open>
  Modelled from the spec: \<^verbatim>\<open>helpers/swapSubject\<close> is not among the sources. The spec
  describes the rename of the subject as a graph-wide rewrite of the statements that
  mention the old subject, not a deletion and a new creation, so that no reference to it
  is orphaned, and all other statements are preserved: the old term is replaced by the
  new one wherever a statement has it, and the dataset stays a set.
\<close>

definition swapSubject :: "quad list \<Rightarrow> rdfterm \<Rightarrow> rdfterm \<Rightarrow> quad list" where
  "swapSubject st oldSubject newSubject =
     (let swap = (\<lambda>t. if t = oldSubject then newSubject else t)
      in rdfDataset
           (map (\<lambda>q. \<lparr>subject = swap (subject q), predicate = swap (predicate q),
                       object = swap (object q), graph = swap (graph q)\<rparr>) st))"

section \<open>The host element\<close>

text \<open>
  \<^verbatim>\<open>ShaclForm extends HTMLElement\<close>. Of the DOM the class uses the element's own
  attributes, its class list and \<^verbatim>\<open>closest\<close>, which looks at the element itself and then
  at its ancestors, nearest first. An element is represented by its attributes; the
  ancestors are the attribute maps up to the document root.
\<close>

type_synonym attrs = "string \<rightharpoonup> string"

record element =
  attributes :: attrs
  classList :: "string list"
  ancestors :: "attrs list"

text \<open>\<^verbatim>\<open>this.attributes.getNamedItem(n)?.value\<close> and \<^verbatim>\<open>this.getAttribute(n)\<close>.\<close>

definition getAttribute :: "element \<Rightarrow> string \<Rightarrow> string option" where
  "getAttribute el n = attributes el n"

text \<open>\<^verbatim>\<open>this.classList.add(c)\<close>: the class list is a set of tokens.\<close>

definition classListAdd :: "element \<Rightarrow> string \<Rightarrow> element" where
  "classListAdd el c = el\<lparr>classList := setAdd (classList el) c\<rparr>"

definition setAttribute :: "element \<Rightarrow> string \<Rightarrow> string \<Rightarrow> element" where
  "setAttribute el n v = el\<lparr>attributes := (attributes el)(n \<mapsto> v)\<rparr>"

text \<open>
  \<^verbatim>\<open>this.closest(`[n]`)?.getAttribute(n)\<close>: the attribute \<open>n\<close> of the nearest
  element, starting at the host itself, that carries it.
\<close>

definition closestAttribute :: "element \<Rightarrow> string \<Rightarrow> string option" where
  "closestAttribute el n =
     (case List.find (\<lambda>a. a n \<noteq> None) (attributes el # ancestors el) of
        None \<Rightarrow> None
      | Some a \<Rightarrow> a n)"

section \<open>The form\<close>

record validateArgs =
  dataset :: "quad list"
  terms :: "rdfterm list"

datatype error =
    ShaclUrlRequired
  | CouldNotFindShapeUri
  | ActiveLanguageNotAvailable
  | ValidatorUndefined
  | CannotSetProperty

text \<open>
  The fields of \<^verbatim>\<open>ShaclForm\<close>. The N3 store and the shapes dataset are sets of quads
  that are iterated in some order: they are lists without duplicates, compared as sets.
  The field \<^verbatim>\<open>#validator\<close> is undefined until \<^verbatim>\<open>init\<close> builds the validator over
  the shapes dataset; \<open>validator\<close> holds the dataset it was built over. The pointer
  \<^verbatim>\<open>#data\<close> shares the store, so only its term is a field.
\<close>

record form =
  host :: element
  validator :: "quad list option"
  subject :: rdfterm
  store :: "quad list"
  shaclDataset :: "quad list"
  shapeUris :: "rdfterm list"
  rootShaclIri :: rdfterm
  uiLanguagePriorities :: "string list"
  data :: "rdfterm option"

text \<open>The field initialisers of the class.\<close>

definition newForm :: "element \<Rightarrow> form" where
  "newForm el =
     \<lparr>host = el, validator = None, subject = NamedNode [], store = [],
      shaclDataset = [], shapeUris = [], rootShaclIri = NamedNode [],
      uiLanguagePriorities = [''*''], data = None\<rparr>"

subsection \<open>Getters\<close>

text \<open>
  \<^verbatim>\<open>get shapeUri\<close>. \<^verbatim>\<open>this.shapeUris[0]\<close> of an empty array is \<^verbatim>\<open>undefined\<close>,
  here \<open>None\<close>.
\<close>

definition shapeUri :: "form \<Rightarrow> error + rdfterm option" where
  "shapeUri f =
     (let givenShapeUri = getAttribute (host f) ''shape-uri'' in
      if \<not> truthy givenShapeUri
      then Inr (case shapeUris f of [] \<Rightarrow> None | t # _ \<Rightarrow> Some t)
      else (case List.find (\<lambda>t. Some (termValue t) = givenShapeUri) (shapeUris f) of
              Some foundUri \<Rightarrow> Inr (Some foundUri)
            | None \<Rightarrow> Inl CouldNotFindShapeUri))"

text \<open>\<^verbatim>\<open>get contentLanguages\<close>.\<close>

definition contentLanguages :: "element \<Rightarrow> string list" where
  "contentLanguages el =
     (case closestAttribute el ''content-languages'' of
        None \<Rightarrow> []
      | Some v \<Rightarrow> split CHR '','' v)"

text \<open>
  \<^verbatim>\<open>get activeContentLanguages\<close>. Its first line resolves the active selection from
  the attribute \<^verbatim>\<open>active-content-languages\<close>.
\<close>

definition activeSelection :: "element \<Rightarrow> string list" where
  "activeSelection el =
     (case closestAttribute el ''active-content-languages'' of
        None \<Rightarrow> []
      | Some v \<Rightarrow> split CHR '','' v)"

definition activeContentLanguages :: "element \<Rightarrow> error + string list" where
  "activeContentLanguages el =
     (let active = activeSelection el in
      if \<not> list_all (\<lambda>a. a \<in> set (contentLanguages el)) active
      then Inl ActiveLanguageNotAvailable
      else if length active = 0 then Inr (contentLanguages el)
      else Inr active)"

text \<open>
  A property that a class declares by accessors: \<^verbatim>\<open>get p () {...}\<close> and, when there is
  one, \<^verbatim>\<open>set p (v) {...}\<close>. An assignment \<^verbatim>\<open>o.p = v\<close> calls the setter. Without a
  setter the assignment throws a \<^verbatim>\<open>TypeError\<close> in strict code, and the code of a module
  is strict.
\<close>

record ('o, 'v) accessor =
  getter :: "'o \<Rightarrow> error + 'v"
  setter :: "('o \<Rightarrow> 'v \<Rightarrow> error + 'o) option"

definition assignProperty :: "('o, 'v) accessor \<Rightarrow> 'o \<Rightarrow> 'v \<Rightarrow> error + 'o" where
  "assignProperty p this newValue =
     (case setter p of
        None \<Rightarrow> Inl CannotSetProperty
      | Some s \<Rightarrow> s this newValue)"

text \<open>
  The class has \<^verbatim>\<open>get activeContentLanguages\<close> (line 144) and no
  \<^verbatim>\<open>set activeContentLanguages\<close>.
\<close>

definition activeContentLanguagesProperty :: "(element, string list) accessor" where
  "activeContentLanguagesProperty = \<lparr>getter = activeContentLanguages, setter = None\<rparr>"

text \<open>
  The click on the tab of a language in \<^verbatim>\<open>LanguageTabs\<close> (line 40):
  \<^verbatim>\<open>form.activeContentLanguages = [languageCode]\<close>. The tabs are those of
  \<^verbatim>\<open>form.contentLanguages\<close> (line 28).
\<close>

definition languageTabClick :: "element \<Rightarrow> string \<Rightarrow> error + element" where
  "languageTabClick form languageCode =
     assignProperty activeContentLanguagesProperty form [languageCode]"

subsection \<open>Initialisation\<close>

text \<open>
  \<^verbatim>\<open>async init ()\<close>, called once by the constructor on the fresh object, is the
  sequence of the blocks below. Its two collaborators are parameters: \<open>fetch\<close> gives
  the text behind a URL and \<open>parse\<close> the quads of a Turtle text, in document order.

  Lines 51 to 59: the shapes document becomes the shapes dataset, the validator is built
  over it, and the subject of every quad \<^verbatim>\<open>?s rdf:type sh:NodeShape\<close> is pushed on
  \<^verbatim>\<open>shapeUris\<close>.
\<close>

definition loadShapes :: "(string \<Rightarrow> string) \<Rightarrow> (string \<Rightarrow> quad list) \<Rightarrow> string \<Rightarrow> form \<Rightarrow> form" where
  "loadShapes fetch parse shaclUrl this =
     (let shaclQuads = parse (fetch shaclUrl);
          this1 = this\<lparr>shaclDataset := rdfDataset shaclQuads\<rparr>;
          this2 = this1\<lparr>validator := Some (shaclDataset this1)\<rparr>;
          nodeShapeQuads = match (shaclDataset this2) (rdf ''type'') (sh ''NodeShape'')
      in this2\<lparr>shapeUris := shapeUris this2 @ map quad.subject nodeShapeQuads\<rparr>)"

text \<open>
  Lines 61 to 64: a single shape is the root shape; the attribute \<^verbatim>\<open>shacl-iri\<close>,
  when it has a value, overrides it. Nothing else writes \<^verbatim>\<open>#rootShaclIri\<close>.
\<close>

definition chooseRootShape :: "form \<Rightarrow> form" where
  "chooseRootShape this =
     (let this1 = (case shapeUris this of
                     [t] \<Rightarrow> this\<lparr>rootShaclIri := t\<rparr>
                   | _ \<Rightarrow> this)
      in case getAttribute (host this1) ''shacl-iri'' of
           None \<Rightarrow> this1
         | Some shaclIri \<Rightarrow>
             if shaclIri = [] then this1
             else this1\<lparr>rootShaclIri := NamedNode shaclIri\<rparr>)"

text \<open>
  Lines 66 to 74: the data document, when the attribute
  \<^verbatim>\<open>data-url\<close> names one and its text is not empty, is parsed into the store, and the
  subject of its first quad becomes the subject of the form.
\<close>

definition loadData :: "(string \<Rightarrow> string) \<Rightarrow> (string \<Rightarrow> quad list) \<Rightarrow> form \<Rightarrow> form" where
  "loadData fetch parse this =
     (case getAttribute (host this) ''data-url'' of
        None \<Rightarrow> this
      | Some dataUrl \<Rightarrow>
          if dataUrl = [] then this
          else
            let dataText = fetch dataUrl in
            if dataText = [] then this
            else
              let dataQuads = parse dataText;
                  this1 = this\<lparr>store := addQuads (store this) dataQuads\<rparr>
              in (case dataQuads of
                    [] \<Rightarrow> this1
                  | q # _ \<Rightarrow> this1\<lparr>subject := quad.subject q\<rparr>))"

text \<open>Lines 76 to 78: the attribute \<^verbatim>\<open>data-iri\<close>, when it has a value, is the subject.\<close>

definition chooseSubject :: "form \<Rightarrow> form" where
  "chooseSubject this =
     (case getAttribute (host this) ''data-iri'' of
        None \<Rightarrow> this
      | Some dataIri \<Rightarrow>
          if dataIri = [] then this
          else this\<lparr>subject := NamedNode dataIri\<rparr>)"

text \<open>Lines 80 and 81: the priorities of the attribute, or the default, and one more star.\<close>

definition setUiLanguagePriorities :: "form \<Rightarrow> form" where
  "setUiLanguagePriorities this =
     (let this1 = this\<lparr>uiLanguagePriorities :=
                    (case getAttribute (host this) ''ui-language-priorities'' of
                       None \<Rightarrow> [''*'']
                     | Some v \<Rightarrow> split CHR '','' v)\<rparr>
      in this1\<lparr>uiLanguagePriorities := uiLanguagePriorities this1 @ [''*'']\<rparr>)"

text \<open>
  Lines 87 to 92: the language tags of the objects of all quads of the store, each once,
  in the order of iteration. A missing and an empty tag are both falsy.
\<close>

definition scanLanguages :: "quad list \<Rightarrow> string list" where
  "scanLanguages st =
     foldl (\<lambda>contentLanguages q.
              (case language (object q) of
                 None \<Rightarrow> contentLanguages
               | Some l \<Rightarrow> if l = [] then contentLanguages else setAdd contentLanguages l))
       [] st"

text \<open>
  Lines 86 to 95: unless the host has the attribute \<^verbatim>\<open>content-languages\<close> (an empty
  one counts: \<^verbatim>\<open>getNamedItem\<close> gives the attribute node), the scanned tags, joined by
  commas, become that attribute.
\<close>

definition setContentLanguages :: "form \<Rightarrow> form" where
  "setContentLanguages this =
     (if getAttribute (host this) ''content-languages'' = None
      then this\<lparr>host := setAttribute (host this) ''content-languages''
                           (join CHR '','' (scanLanguages (store this)))\<rparr>
      else this)"

text \<open>
  The whole of \<^verbatim>\<open>init\<close>. The call \<^verbatim>\<open>this.render()\<close> of line 82 is not awaited and
  writes no field of the form, so it does not appear in the state that \<open>init\<close> returns;
  \<open>render\<close> below is the function it starts. Line 84 points \<^verbatim>\<open>#data\<close> at the subject.
\<close>

definition init :: "(string \<Rightarrow> string) \<Rightarrow> (string \<Rightarrow> quad list) \<Rightarrow> form \<Rightarrow> error + form" where
  "init fetch parse this =
     (let this1 = this\<lparr>host := classListAdd (host this) ''shacl-form''\<rparr> in
      case getAttribute (host this1) ''shacl-url'' of
        None \<Rightarrow> Inl ShaclUrlRequired
      | Some shaclUrl \<Rightarrow>
          if shaclUrl = [] then Inl ShaclUrlRequired
          else
            let this2 = loadShapes fetch parse shaclUrl this1;
                this3 = chooseRootShape this2;
                this4 = loadData fetch parse this3;
                this5 = chooseSubject this4;
                this6 = setUiLanguagePriorities this5;
                this7 = this6\<lparr>data := Some (subject this6)\<rparr>
            in Inr (setContentLanguages this7))"

subsection \<open>Validation, rendering and the subject\<close>

text \<open>
  \<^verbatim>\<open>validate ()\<close>. The external validator \<open>Validator\<close> is a parameter: built over a
  shapes dataset, it maps the argument object of \<^verbatim>\<open>validate\<close> to a report. Before
  \<^verbatim>\<open>init\<close> has built it, the call on the undefined field raises a type error.
\<close>

definition validate :: "(quad list \<Rightarrow> validateArgs \<Rightarrow> 'r) \<Rightarrow> form \<Rightarrow> error + 'r" where
  "validate Validator this =
     (case validator this of
        None \<Rightarrow> Inl ValidatorUndefined
      | Some shapes \<Rightarrow> Inr (Validator shapes \<lparr>dataset = store this, terms = [subject this]\<rparr>))"

text \<open>
  \<^verbatim>\<open>async render ()\<close>: one validation and one compilation of the shape tree. The
  compiler \<^verbatim>\<open>shaclTree\<close> is not among the sources and is a parameter. The result is
  the properties handed to \<^verbatim>\<open>FormLevelBase\<close>.
\<close>

record 't formLevelProps =
  tree :: 't
  dataPointer :: "rdfterm option"
  propsUiLanguagePriorities :: "string list"

definition render ::
  "(quad list \<Rightarrow> validateArgs \<Rightarrow> 'r) \<Rightarrow> ('r \<Rightarrow> quad list \<Rightarrow> 'o \<Rightarrow> rdfterm \<Rightarrow> 't) \<Rightarrow> 'o \<Rightarrow> form
     \<Rightarrow> error + 't formLevelProps" where
  "render Validator shaclTree options this =
     (case validate Validator this of
        Inl e \<Rightarrow> Inl e
      | Inr report \<Rightarrow>
          Inr \<lparr>tree = shaclTree report (shaclDataset this) options (rootShaclIri this),
               dataPointer = data this,
               propsUiLanguagePriorities = uiLanguagePriorities this\<rparr>)"

text \<open>
  \<^verbatim>\<open>set subject (newValue)\<close>. The helper \<^verbatim>\<open>swapSubject\<close> gets the store, the value of
  the getter and the new value; it is the parameter \<open>swap\<close>, that maps the store to
  the store it leaves (terms are immutable values).
\<close>

definition setSubject ::
  "(quad list \<Rightarrow> rdfterm \<Rightarrow> rdfterm \<Rightarrow> quad list) \<Rightarrow> form \<Rightarrow> rdfterm \<Rightarrow> form" where
  "setSubject swap this newValue = this\<lparr>store := swap (store this) (subject this) newValue\<rparr>"

text \<open>
  The words of the specification for the content languages: the language tags observed
  on literal objects of the statements of the current subject.
\<close>

definition observedLanguages :: "rdfterm \<Rightarrow> quad list \<Rightarrow> string list" where
  "observedLanguages s st = scanLanguages (filter (\<lambda>q. quad.subject q = s) st)"

section \<open>An example: a form over a data document with two subjects\<close>

text \<open>
  A host with a shapes and a data document. The data document is
  \<^verbatim>\<open><A> <label> "hello"@en . <B> <label> "bonjour"@fr .\<close> and the shapes document
  declares the node shape \<open>S\<close>. The text of a document stands for its URL.
\<close>

definition exampleHost :: element where
  "exampleHost =
     \<lparr>attributes = [''shacl-url'' \<mapsto> ''shapes.ttl'', ''data-url'' \<mapsto> ''data.ttl''],
      classList = [], ancestors = []\<rparr>"

definition exampleFetch :: "string \<Rightarrow> string" where
  "exampleFetch url = url"

definition exampleParse :: "string \<Rightarrow> quad list" where
  "exampleParse text =
     (if text = ''data.ttl''
      then [\<lparr>quad.subject = NamedNode ''A'', predicate = NamedNode ''label'',
              object = Literal ''hello'' ''en'' ''langString'', graph = DefaultGraph\<rparr>,
            \<lparr>quad.subject = NamedNode ''B'', predicate = NamedNode ''label'',
              object = Literal ''bonjour'' ''fr'' ''langString'', graph = DefaultGraph\<rparr>]
      else [\<lparr>quad.subject = NamedNode ''S'', predicate = rdf ''type'',
              object = sh ''NodeShape'', graph = DefaultGraph\<rparr>])"

section \<open>Facts about the library functions\<close>

lemma set_foldl_setAdd: "set (foldl setAdd s xs) = set s \<union> set xs"
  by (induction xs arbitrary: s) (auto simp: setAdd_def)

lemma set_rdfDataset: "set (rdfDataset qs) = set qs"
  by (simp add: rdfDataset_def set_foldl_setAdd)

lemma set_addQuads: "set (addQuads st qs) = set st \<union> set qs"
  by (simp add: addQuads_def set_foldl_setAdd)

lemma split_not_Nil: "split c s \<noteq> []"
  by (induction s) (auto split: list.splits)

lemma split_no_separator: "c \<notin> set x \<Longrightarrow> split c x = [x]"
  by (induction x) auto

lemma split_append_separator: "c \<notin> set x \<Longrightarrow> split c (x @ c # r) = x # split c r"
  by (induction x) auto

lemma split_join:
  "xs \<noteq> [] \<Longrightarrow> \<forall>x\<in>set xs. c \<notin> set x \<Longrightarrow> split c (join c xs) = xs"
proof (induction c xs rule: join.induct)
  case (1 c)
  then show ?case by simp
next
  case (2 c x)
  then show ?case by (simp add: split_no_separator)
next
  case (3 c x y ys)
  then show ?case by (simp add: split_append_separator)
qed

lemma set_scan_step:
  "set (foldl (\<lambda>contentLanguages q.
              (case language (object q) of
                 None \<Rightarrow> contentLanguages
               | Some l \<Rightarrow> if l = [] then contentLanguages else setAdd contentLanguages l))
       acc st) = set acc \<union> {l. \<exists>q\<in>set st. language (object q) = Some l \<and> l \<noteq> []}"
  by (induction st arbitrary: acc) (auto simp: setAdd_def split: option.splits)

lemma set_scanLanguages:
  "set (scanLanguages st) = {l. \<exists>q\<in>set st. language (object q) = Some l \<and> l \<noteq> []}"
  by (simp add: scanLanguages_def set_scan_step)

lemma closestAttribute_setAttribute_same:
  "closestAttribute (setAttribute el n v) n = Some v"
  by (simp add: closestAttribute_def setAttribute_def)

lemma closestAttribute_setAttribute_other:
  "m \<noteq> n \<Longrightarrow> closestAttribute (setAttribute el n v) m = closestAttribute el m"
  by (simp add: closestAttribute_def setAttribute_def)

section \<open>What each block of the initialisation writes\<close>

lemma loadShapes_fields:
  "host (loadShapes fetch parse url this) = host this"
  "store (loadShapes fetch parse url this) = store this"
  "subject (loadShapes fetch parse url this) = subject this"
  "rootShaclIri (loadShapes fetch parse url this) = rootShaclIri this"
  "shaclDataset (loadShapes fetch parse url this) = rdfDataset (parse (fetch url))"
  "validator (loadShapes fetch parse url this) = Some (rdfDataset (parse (fetch url)))"
  "shapeUris (loadShapes fetch parse url this) =
     shapeUris this @ map quad.subject (match (rdfDataset (parse (fetch url))) (rdf ''type'') (sh ''NodeShape''))"
  by (simp_all add: loadShapes_def Let_def)

lemma chooseRootShape_fields:
  "host (chooseRootShape this) = host this"
  "store (chooseRootShape this) = store this"
  "subject (chooseRootShape this) = subject this"
  "shapeUris (chooseRootShape this) = shapeUris this"
  "shaclDataset (chooseRootShape this) = shaclDataset this"
  "validator (chooseRootShape this) = validator this"
  by (simp_all add: chooseRootShape_def Let_def split: option.split list.split)

lemma chooseRootShape_root:
  "rootShaclIri (chooseRootShape this) =
     (if truthy (getAttribute (host this) ''shacl-iri'')
      then NamedNode (case getAttribute (host this) ''shacl-iri'' of Some iri \<Rightarrow> iri | None \<Rightarrow> [])
      else (case shapeUris this of [t] \<Rightarrow> t | _ \<Rightarrow> rootShaclIri this))"
  by (simp add: chooseRootShape_def Let_def split: option.split list.split)

lemma loadData_fields:
  "host (loadData fetch parse this) = host this"
  "rootShaclIri (loadData fetch parse this) = rootShaclIri this"
  "shapeUris (loadData fetch parse this) = shapeUris this"
  "shaclDataset (loadData fetch parse this) = shaclDataset this"
  "validator (loadData fetch parse this) = validator this"
  by (simp_all add: loadData_def Let_def split: option.split list.split)

lemma chooseSubject_fields:
  "host (chooseSubject this) = host this"
  "store (chooseSubject this) = store this"
  "rootShaclIri (chooseSubject this) = rootShaclIri this"
  "shapeUris (chooseSubject this) = shapeUris this"
  "shaclDataset (chooseSubject this) = shaclDataset this"
  "validator (chooseSubject this) = validator this"
  by (simp_all add: chooseSubject_def split: option.split)

lemma setUiLanguagePriorities_fields:
  "host (setUiLanguagePriorities this) = host this"
  "store (setUiLanguagePriorities this) = store this"
  "subject (setUiLanguagePriorities this) = subject this"
  "rootShaclIri (setUiLanguagePriorities this) = rootShaclIri this"
  "shapeUris (setUiLanguagePriorities this) = shapeUris this"
  "shaclDataset (setUiLanguagePriorities this) = shaclDataset this"
  "validator (setUiLanguagePriorities this) = validator this"
  "uiLanguagePriorities (setUiLanguagePriorities this) =
     (case getAttribute (host this) ''ui-language-priorities'' of
        None \<Rightarrow> [''*'']
      | Some v \<Rightarrow> split CHR '','' v) @ [''*'']"
  by (simp_all add: setUiLanguagePriorities_def Let_def)

lemma setContentLanguages_fields:
  "store (setContentLanguages this) = store this"
  "subject (setContentLanguages this) = subject this"
  "rootShaclIri (setContentLanguages this) = rootShaclIri this"
  "shapeUris (setContentLanguages this) = shapeUris this"
  "shaclDataset (setContentLanguages this) = shaclDataset this"
  "validator (setContentLanguages this) = validator this"
  "uiLanguagePriorities (setContentLanguages this) = uiLanguagePriorities this"
  "data (setContentLanguages this) = data this"
  by (simp_all add: setContentLanguages_def)

lemma setContentLanguages_host:
  "getAttribute (host this) ''content-languages'' = None \<Longrightarrow>
   closestAttribute (host (setContentLanguages this)) ''content-languages'' =
     Some (join CHR '','' (scanLanguages (store this)))"
  by (simp add: setContentLanguages_def closestAttribute_setAttribute_same)

lemma getAttribute_classListAdd: "getAttribute (classListAdd el c) n = getAttribute el n"
  by (simp add: getAttribute_def classListAdd_def)

lemma init_Inr:
  assumes "getAttribute (host this) ''shacl-url'' = Some url" and "url \<noteq> []"
  shows "init fetch parse this =
           Inr (setContentLanguages
                  ((setUiLanguagePriorities (chooseSubject (loadData fetch parse (chooseRootShape
                      (loadShapes fetch parse url
                         (this\<lparr>host := classListAdd (host this) ''shacl-form''\<rparr>))))))
                   \<lparr>data := Some (subject (setUiLanguagePriorities (chooseSubject (loadData fetch parse
                      (chooseRootShape (loadShapes fetch parse url
                         (this\<lparr>host := classListAdd (host this) ''shacl-form''\<rparr>)))))))\<rparr>))"
  using assms by (simp add: init_def Let_def getAttribute_classListAdd)

lemma init_Inl:
  "init fetch parse this = Inl e \<longleftrightarrow>
     \<not> truthy (getAttribute (host this) ''shacl-url'') \<and> e = ShaclUrlRequired"
  by (auto simp: init_def Let_def getAttribute_classListAdd split: option.split)

lemma loadData_store:
  "store (loadData fetch parse this) =
     (case getAttribute (host this) ''data-url'' of
        None \<Rightarrow> store this
      | Some dataUrl \<Rightarrow>
          if dataUrl = [] \<or> fetch dataUrl = [] then store this
          else addQuads (store this) (parse (fetch dataUrl)))"
  by (simp add: loadData_def Let_def split: option.split list.split)

lemma init_fields:
  assumes "init fetch parse this = Inr f"
  shows "\<exists>url. getAttribute (host this) ''shacl-url'' = Some url \<and> url \<noteq> []
           \<and> shapeUris f = shapeUris this @ map quad.subject
                 (match (rdfDataset (parse (fetch url))) (rdf ''type'') (sh ''NodeShape''))
           \<and> shaclDataset f = rdfDataset (parse (fetch url))
           \<and> validator f = Some (shaclDataset f)"
    and "rootShaclIri f =
           (if truthy (getAttribute (host this) ''shacl-iri'')
            then NamedNode (case getAttribute (host this) ''shacl-iri'' of Some iri \<Rightarrow> iri | None \<Rightarrow> [])
            else (case shapeUris f of [t] \<Rightarrow> t | _ \<Rightarrow> rootShaclIri this))"
    and "uiLanguagePriorities f =
           (case getAttribute (host this) ''ui-language-priorities'' of
              None \<Rightarrow> [''*'']
            | Some v \<Rightarrow> split CHR '','' v) @ [''*'']"
    and "store f = store (loadData fetch parse this)"
    and "getAttribute (host this) ''content-languages'' = None \<Longrightarrow>
           closestAttribute (host f) ''content-languages'' =
             Some (join CHR '','' (scanLanguages (store f)))"
proof -
  from assms have "\<not> (\<exists>e. init fetch parse this = Inl e)" by simp
  then have "truthy (getAttribute (host this) ''shacl-url'')"
    by (simp add: init_Inl)
  then obtain url where url: "getAttribute (host this) ''shacl-url'' = Some url" "url \<noteq> []"
    by (cases "getAttribute (host this) ''shacl-url''") auto
  note f = assms [unfolded init_Inr [OF url], simplified, symmetric]
  note fields = setContentLanguages_fields setUiLanguagePriorities_fields chooseSubject_fields
    loadData_fields chooseRootShape_fields loadShapes_fields getAttribute_classListAdd
  show "\<exists>url. getAttribute (host this) ''shacl-url'' = Some url \<and> url \<noteq> []
           \<and> shapeUris f = shapeUris this @ map quad.subject
                 (match (rdfDataset (parse (fetch url))) (rdf ''type'') (sh ''NodeShape''))
           \<and> shaclDataset f = rdfDataset (parse (fetch url))
           \<and> validator f = Some (shaclDataset f)"
    using url by (simp add: f fields)
  show "rootShaclIri f =
           (if truthy (getAttribute (host this) ''shacl-iri'')
            then NamedNode (case getAttribute (host this) ''shacl-iri'' of Some iri \<Rightarrow> iri | None \<Rightarrow> [])
            else (case shapeUris f of [t] \<Rightarrow> t | _ \<Rightarrow> rootShaclIri this))"
    by (simp add: f fields chooseRootShape_root cong: list.case_cong)
  show "uiLanguagePriorities f =
           (case getAttribute (host this) ''ui-language-priorities'' of
              None \<Rightarrow> [''*'']
            | Some v \<Rightarrow> split CHR '','' v) @ [''*'']"
    by (simp add: f fields)
  show "store f = store (loadData fetch parse this)"
    by (simp add: f fields loadData_store cong: option.case_cong if_cong)
  show "closestAttribute (host f) ''content-languages'' =
             Some (join CHR '','' (scanLanguages (store f)))"
    if "getAttribute (host this) ''content-languages'' = None"
    using that by (simp add: f fields setContentLanguages_host)
qed

section \<open>The example, evaluated\<close>

lemmas init_defs =
  init_def loadShapes_def chooseRootShape_def loadData_def chooseSubject_def
  setUiLanguagePriorities_def setContentLanguages_def scanLanguages_def newForm_def
  getAttribute_def setAttribute_def classListAdd_def match_def rdfDataset_def addQuads_def
  setAdd_def Let_def

lemmas example_defs = exampleHost_def exampleFetch_def exampleParse_def

lemma example_init:
  "\<exists>f. init exampleFetch exampleParse (newForm exampleHost) = Inr f"
  by (simp add: init_defs example_defs)

lemma example_store:
  "map_sum id store (init exampleFetch exampleParse (newForm exampleHost)) =
     Inr [\<lparr>quad.subject = NamedNode ''A'', predicate = NamedNode ''label'',
            object = Literal ''hello'' ''en'' ''langString'', graph = DefaultGraph\<rparr>,
          \<lparr>quad.subject = NamedNode ''B'', predicate = NamedNode ''label'',
            object = Literal ''bonjour'' ''fr'' ''langString'', graph = DefaultGraph\<rparr>]"
  by (simp add: init_defs example_defs)

lemma example_subject:
  "map_sum id subject (init exampleFetch exampleParse (newForm exampleHost)) = Inr (NamedNode ''A'')"
  by (simp add: init_defs example_defs)

lemma example_no_data:
  "map_sum id (\<lambda>f. contentLanguages (host f))
     (init exampleFetch exampleParse
        (newForm \<lparr>attributes = [''shacl-url'' \<mapsto> ''shapes.ttl''], classList = [], ancestors = []\<rparr>))
     = Inr [[]]
   \<and> map_sum id (\<lambda>f. observedLanguages (subject f) (store f))
     (init exampleFetch exampleParse
        (newForm \<lparr>attributes = [''shacl-url'' \<mapsto> ''shapes.ttl''], classList = [], ancestors = []\<rparr>))
     = Inr []"
  by (simp add: init_defs example_defs contentLanguages_def closestAttribute_def
        observedLanguages_def)

lemma scanLanguages_example:
  "scanLanguages
     [\<lparr>quad.subject = NamedNode ''A'', predicate = NamedNode ''label'',
            object = Literal ''hello'' ''en'' ''langString'', graph = DefaultGraph\<rparr>,
          \<lparr>quad.subject = NamedNode ''B'', predicate = NamedNode ''label'',
            object = Literal ''bonjour'' ''fr'' ''langString'', graph = DefaultGraph\<rparr>] = [''en'', ''fr'']"
  by (simp add: scanLanguages_def setAdd_def)

section \<open>Facts about the getters\<close>

lemma activeSelection_empty_iff:
  "activeSelection el = [] \<longleftrightarrow> closestAttribute el ''active-content-languages'' = None"
  by (simp add: activeSelection_def split_not_Nil split: option.split)

section \<open>The root shape (C1)\<close>





section \<open>The active content languages (C2, C10)\<close>

text \<open>
  C2. In every configuration, reading \<^verbatim>\<open>activeContentLanguages\<close> raises the
  configuration error when the active selection has a tag that is not among
  \<^verbatim>\<open>contentLanguages\<close>, and returns a list when every active tag is among them: nothing
  is clamped. Setting the property is another matter. The class declares the getter only,
  so the assignment of a selection raises a type error for every value, without a look at
  the content languages: the click on a language tab, which always selects one of the
  content languages, raises it.
\<close>

theorem activeContentLanguages_check:
  "((\<exists>a \<in> set (activeSelection el). a \<notin> set (contentLanguages el)) \<longrightarrow>
      activeContentLanguages el = Inl ActiveLanguageNotAvailable)
   \<and> ((\<forall>a \<in> set (activeSelection el). a \<in> set (contentLanguages el)) \<longrightarrow>
      (\<exists>ls. activeContentLanguages el = Inr ls))
   \<and> getter activeContentLanguagesProperty el = activeContentLanguages el
   \<and> assignProperty activeContentLanguagesProperty el newValue = Inl CannotSetProperty
   \<and> languageTabClick el languageCode = Inl CannotSetProperty"
proof -
  have bad: "activeContentLanguages el = Inl ActiveLanguageNotAvailable"
    if "\<exists>a \<in> set (activeSelection el). a \<notin> set (contentLanguages el)"
    using that by (auto simp: activeContentLanguages_def Let_def list_all_iff)
  have good: "\<exists>ls. activeContentLanguages el = Inr ls"
    if "\<forall>a \<in> set (activeSelection el). a \<in> set (contentLanguages el)"
    using that by (simp add: activeContentLanguages_def Let_def list_all_iff)
  have assign: "assignProperty activeContentLanguagesProperty e v = Inl CannotSetProperty" for e v
    by (simp add: assignProperty_def activeContentLanguagesProperty_def)
  have "getter activeContentLanguagesProperty el = activeContentLanguages el"
    by (simp add: activeContentLanguagesProperty_def)
  then show ?thesis
    using bad good assign by (simp add: languageTabClick_def)
qed

theorem activeContentLanguages_check_witness:
  "activeContentLanguages
     \<lparr>attributes = [''content-languages'' \<mapsto> ''en,nl'', ''active-content-languages'' \<mapsto> ''fr''],
      classList = [], ancestors = []\<rparr> = Inl ActiveLanguageNotAvailable
   \<and> contentLanguages
     \<lparr>attributes = [''content-languages'' \<mapsto> ''en,nl'', ''active-content-languages'' \<mapsto> ''fr''],
      classList = [], ancestors = []\<rparr> = [''en'', ''nl'']
   \<and> languageTabClick
     \<lparr>attributes = [''content-languages'' \<mapsto> ''en,nl'', ''active-content-languages'' \<mapsto> ''fr''],
      classList = [], ancestors = []\<rparr> ''nl'' = Inl CannotSetProperty"
  using activeContentLanguages_check
    [of "\<lparr>attributes = [''content-languages'' \<mapsto> ''en,nl'', ''active-content-languages'' \<mapsto> ''fr''],
          classList = [], ancestors = []\<rparr>" "[''nl'']" "''nl''"]
  by (simp add: activeSelection_def contentLanguages_def closestAttribute_def)

text \<open>
  C10. The active selection is empty exactly when neither the host nor an ancestor has
  the attribute \<^verbatim>\<open>active-content-languages\<close>, and then the getter returns the whole of
  \<^verbatim>\<open>contentLanguages\<close>, neither an empty list nor an error.
\<close>

theorem activeContentLanguages_default:
  "(activeSelection el = [] \<longleftrightarrow> closestAttribute el ''active-content-languages'' = None)
   \<and> (activeSelection el = [] \<longrightarrow> activeContentLanguages el = Inr (contentLanguages el))"
proof -
  have "activeContentLanguages el = Inr (contentLanguages el)" if "activeSelection el = []"
    using that by (simp add: activeContentLanguages_def Let_def)
  then show ?thesis
    by (simp add: activeSelection_empty_iff)
qed

theorem activeContentLanguages_default_witness:
  "activeSelection
     \<lparr>attributes = [''content-languages'' \<mapsto> ''en,nl''], classList = [], ancestors = []\<rparr> = []
   \<and> activeContentLanguages
     \<lparr>attributes = [''content-languages'' \<mapsto> ''en,nl''], classList = [], ancestors = []\<rparr>
       = Inr [''en'', ''nl'']"
proof -
  let ?el = "\<lparr>attributes = [''content-languages'' \<mapsto> ''en,nl''], classList = [], ancestors = []\<rparr>"
  have none: "closestAttribute ?el ''active-content-languages'' = None"
    by (simp add: closestAttribute_def)
  have cl: "contentLanguages ?el = [''en'', ''nl'']"
    by (simp add: contentLanguages_def closestAttribute_def)
  from none activeContentLanguages_default [of ?el] show ?thesis
    by (simp add: cl)
qed

section \<open>The shape named by the host (C5)\<close>

text \<open>
  C5. Without a value of the attribute \<^verbatim>\<open>shape-uri\<close> the getter \<^verbatim>\<open>shapeUri\<close> returns
  the first declared shape (\<^verbatim>\<open>undefined\<close> when none is declared). With a value that is
  the value of no declared shape it raises the error; with a value of a declared shape it
  returns a declared shape of that value.
\<close>

theorem shapeUri_cases:
  "(\<not> truthy (getAttribute (host f) ''shape-uri'') \<longrightarrow>
      shapeUri f = Inr (case shapeUris f of [] \<Rightarrow> None | t # _ \<Rightarrow> Some t))
   \<and> (truthy (getAttribute (host f) ''shape-uri'')
        \<and> (\<forall>t \<in> set (shapeUris f). Some (termValue t) \<noteq> getAttribute (host f) ''shape-uri'') \<longrightarrow>
      shapeUri f = Inl CouldNotFindShapeUri)
   \<and> (truthy (getAttribute (host f) ''shape-uri'')
        \<and> (\<exists>t \<in> set (shapeUris f). Some (termValue t) = getAttribute (host f) ''shape-uri'') \<longrightarrow>
      (\<exists>t \<in> set (shapeUris f). shapeUri f = Inr (Some t)
          \<and> Some (termValue t) = getAttribute (host f) ''shape-uri''))"
proof (intro conjI impI)
  assume "\<not> truthy (getAttribute (host f) ''shape-uri'')"
  then show "shapeUri f = Inr (case shapeUris f of [] \<Rightarrow> None | t # _ \<Rightarrow> Some t)"
    by (simp add: shapeUri_def)
next
  assume a: "truthy (getAttribute (host f) ''shape-uri'')
        \<and> (\<forall>t \<in> set (shapeUris f). Some (termValue t) \<noteq> getAttribute (host f) ''shape-uri'')"
  then have "List.find (\<lambda>t. Some (termValue t) = getAttribute (host f) ''shape-uri'') (shapeUris f) = None"
    by (simp add: find_None_iff)
  with a show "shapeUri f = Inl CouldNotFindShapeUri"
    by (simp add: shapeUri_def)
next
  assume a: "truthy (getAttribute (host f) ''shape-uri'')
        \<and> (\<exists>t \<in> set (shapeUris f). Some (termValue t) = getAttribute (host f) ''shape-uri'')"
  then obtain t where
    t: "List.find (\<lambda>t. Some (termValue t) = getAttribute (host f) ''shape-uri'') (shapeUris f) = Some t"
    by (cases "List.find (\<lambda>t. Some (termValue t) = getAttribute (host f) ''shape-uri'') (shapeUris f)")
       (auto simp: find_None_iff)
  then have "t \<in> set (shapeUris f)" and "Some (termValue t) = getAttribute (host f) ''shape-uri''"
    by (auto simp: find_Some_iff)
  moreover from a t have "shapeUri f = Inr (Some t)"
    by (simp add: shapeUri_def)
  ultimately show "\<exists>t \<in> set (shapeUris f). shapeUri f = Inr (Some t)
          \<and> Some (termValue t) = getAttribute (host f) ''shape-uri''"
    by blast
qed

theorem shapeUri_cases_witness:
  "shapeUri ((newForm \<lparr>attributes = [''shape-uri'' \<mapsto> ''C''], classList = [], ancestors = []\<rparr>)
       \<lparr>shapeUris := [NamedNode ''A'', NamedNode ''B'']\<rparr>) = Inl CouldNotFindShapeUri
   \<and> shapeUri ((newForm \<lparr>attributes = Map.empty, classList = [], ancestors = []\<rparr>)
       \<lparr>shapeUris := [NamedNode ''A'', NamedNode ''B'']\<rparr>) = Inr (Some (NamedNode ''A''))
   \<and> shapeUri ((newForm \<lparr>attributes = [''shape-uri'' \<mapsto> ''B''], classList = [], ancestors = []\<rparr>)
       \<lparr>shapeUris := [NamedNode ''A'', NamedNode ''B'']\<rparr>) = Inr (Some (NamedNode ''B''))"
  using
    shapeUri_cases [of "(newForm \<lparr>attributes = [''shape-uri'' \<mapsto> ''C''], classList = [], ancestors = []\<rparr>)
       \<lparr>shapeUris := [NamedNode ''A'', NamedNode ''B'']\<rparr>"]
    shapeUri_cases [of "(newForm \<lparr>attributes = Map.empty, classList = [], ancestors = []\<rparr>)
       \<lparr>shapeUris := [NamedNode ''A'', NamedNode ''B'']\<rparr>"]
    shapeUri_cases [of "(newForm \<lparr>attributes = [''shape-uri'' \<mapsto> ''B''], classList = [], ancestors = []\<rparr>)
       \<lparr>shapeUris := [NamedNode ''A'', NamedNode ''B'']\<rparr>"]
  by (simp add: newForm_def getAttribute_def)

section \<open>The priorities of the interface languages (C7)\<close>

text \<open>
  C7. After \<^verbatim>\<open>init\<close> the list \<^verbatim>\<open>uiLanguagePriorities\<close> is the configured list, or the
  default \<open>[*]\<close> when the attribute \<^verbatim>\<open>ui-language-priorities\<close> is absent, with the
  wildcard \<open>*\<close> appended: its last element is the wildcard. The list of the field
  initialiser ends with the wildcard as well.
\<close>

theorem init_uiLanguagePriorities:
  assumes "init fetch parse (newForm el) = Inr f"
  shows "uiLanguagePriorities f =
           (case getAttribute el ''ui-language-priorities'' of
              None \<Rightarrow> [''*'']
            | Some v \<Rightarrow> split CHR '','' v) @ [''*'']
         \<and> last (uiLanguagePriorities f) = ''*''
         \<and> last (uiLanguagePriorities (newForm el)) = ''*''"
  using init_fields(3) [OF assms] by (simp add: newForm_def)

theorem init_uiLanguagePriorities_witness:
  "map_sum id uiLanguagePriorities
     (init (\<lambda>url. ''ttl'') (\<lambda>text. [])
        (newForm \<lparr>attributes = [''shacl-url'' \<mapsto> ''shapes.ttl'', ''ui-language-priorities'' \<mapsto> ''nl,en''],
                  classList = [], ancestors = []\<rparr>))
     = Inr [''nl'', ''en'', ''*'']"
proof -
  let ?el = "\<lparr>attributes = [''shacl-url'' \<mapsto> ''shapes.ttl'', ''ui-language-priorities'' \<mapsto> ''nl,en''],
              classList = [], ancestors = []\<rparr>"
  have url: "getAttribute (host (newForm ?el)) ''shacl-url'' = Some ''shapes.ttl''"
    by (simp add: newForm_def getAttribute_def)
  obtain f where f: "init (\<lambda>url. ''ttl'') (\<lambda>text. []) (newForm ?el) = Inr f"
    using init_Inr [OF url] by blast
  from init_uiLanguagePriorities [OF f] have "uiLanguagePriorities f = [''nl'', ''en'', ''*'']"
    by (simp add: getAttribute_def)
  with f show ?thesis by simp
qed

section \<open>Validation (C8)\<close>

text \<open>
  C8. A validation run, once \<^verbatim>\<open>init\<close> has built the validator, calls the validator with
  one argument object: its dataset is the store of the form and its list of focus terms
  has length one and holds the subject of the form. The validator that returns its
  argument shows what any validator is called with. \<open>render\<close> validates by this function.
\<close>

theorem validate_args:
  assumes "validator this = Some shapes"
  shows "\<exists>args. validate (\<lambda>shapes args. args) this = Inr args
           \<and> validate Validator this = Inr (Validator shapes args)
           \<and> dataset args = store this
           \<and> terms args = [subject this]
           \<and> length (terms args) = 1"
  using assms by (simp add: validate_def)

theorem validate_args_witness:
  "validate (\<lambda>shapes args. args)
     ((newForm \<lparr>attributes = Map.empty, classList = [], ancestors = []\<rparr>)
        \<lparr>validator := Some [], subject := NamedNode ''A''\<rparr>)
     = Inr \<lparr>dataset = [], terms = [NamedNode ''A'']\<rparr>"
  using validate_args [of "(newForm \<lparr>attributes = Map.empty, classList = [], ancestors = []\<rparr>)
        \<lparr>validator := Some [], subject := NamedNode ''A''\<rparr>" "[]" "\<lambda>shapes args. args"]
  by (auto simp: newForm_def)

section \<open>The setter of the subject (C9)\<close>

text \<open>
  C9. The setter of the subject writes the store only, whatever \<^verbatim>\<open>swapSubject\<close> does with
  it: the store becomes the one the helper leaves for the old subject and the new value,
  every other field of the form is as before, and the getter still returns the old
  subject, also after any number of calls of the setter.
\<close>

theorem setSubject_frame:
  "subject (setSubject swap this B) = subject this
   \<and> store (setSubject swap this B) = swap (store this) (subject this) B
   \<and> (setSubject swap this B)\<lparr>store := store this\<rparr> = this
   \<and> subject (foldl (setSubject swap) this Bs) = subject this"
proof -
  have "subject (foldl (setSubject swap) f Bs) = subject f" for f
    by (induction Bs arbitrary: f) (simp_all add: setSubject_def)
  then show ?thesis
    by (simp add: setSubject_def)
qed

theorem setSubject_frame_witness:
  "subject (setSubject swapSubject
     ((newForm exampleHost)\<lparr>subject := NamedNode ''A'', store := exampleParse ''data.ttl''\<rparr>)
     (NamedNode ''C'')) = NamedNode ''A''
   \<and> store (setSubject swapSubject
     ((newForm exampleHost)\<lparr>subject := NamedNode ''A'', store := exampleParse ''data.ttl''\<rparr>)
     (NamedNode ''C'')) =
       [\<lparr>quad.subject = NamedNode ''C'', predicate = NamedNode ''label'',
          object = Literal ''hello'' ''en'' ''langString'', graph = DefaultGraph\<rparr>,
        \<lparr>quad.subject = NamedNode ''B'', predicate = NamedNode ''label'',
          object = Literal ''bonjour'' ''fr'' ''langString'', graph = DefaultGraph\<rparr>]"
  using setSubject_frame [of swapSubject
     "(newForm exampleHost)\<lparr>subject := NamedNode ''A'', store := exampleParse ''data.ttl''\<rparr>"
     "NamedNode ''C''" "[]"]
  by (simp add: newForm_def exampleParse_def swapSubject_def rdfDataset_def setAdd_def Let_def)

section \<open>The content languages (C6)\<close>

text \<open>
  C6, as the code has it. When the host has no attribute \<^verbatim>\<open>content-languages\<close>, no
  language tag has a comma and the store has a literal with a language tag, then after
  \<^verbatim>\<open>init\<close> the getter \<^verbatim>\<open>contentLanguages\<close> returns the scanned tags: exactly the
  language tags of the literal objects of all statements of the store, whatever their
  subject.
\<close>

theorem init_contentLanguages:
  assumes "init fetch parse (newForm el) = Inr f"
      and "getAttribute el ''content-languages'' = None"
      and "\<forall>q \<in> set (store f). \<forall>l. language (object q) = Some l \<longrightarrow> CHR '','' \<notin> set l"
      and "\<exists>q \<in> set (store f). \<exists>l. language (object q) = Some l \<and> l \<noteq> []"
  shows "contentLanguages (host f) = scanLanguages (store f)
         \<and> set (contentLanguages (host f))
             = {l. \<exists>q \<in> set (store f). language (object q) = Some l \<and> l \<noteq> []}"
proof -
  let ?tags = "scanLanguages (store f)"
  have "getAttribute (host (newForm el)) ''content-languages'' = None"
    using assms(2) by (simp add: newForm_def)
  then have attr: "closestAttribute (host f) ''content-languages'' = Some (join CHR '','' ?tags)"
    by (rule init_fields(5) [OF assms(1)])
  have "set ?tags \<noteq> {}"
    using assms(4) by (auto simp: set_scanLanguages)
  then have ne: "?tags \<noteq> []" by auto
  have commas: "\<forall>l \<in> set ?tags. CHR '','' \<notin> set l"
    using assms(3) by (auto simp: set_scanLanguages)
  have "contentLanguages (host f) = ?tags"
    by (simp add: contentLanguages_def attr split_join [OF ne commas])
  then show ?thesis
    by (simp add: set_scanLanguages)
qed

theorem init_contentLanguages_witness:
  "map_sum id (\<lambda>f. set (contentLanguages (host f)))
     (init exampleFetch exampleParse (newForm exampleHost)) = Inr {''en'', ''fr''}"
proof -
  obtain f where f: "init exampleFetch exampleParse (newForm exampleHost) = Inr f"
    using example_init by blast
  have st: "store f =
     [\<lparr>quad.subject = NamedNode ''A'', predicate = NamedNode ''label'',
            object = Literal ''hello'' ''en'' ''langString'', graph = DefaultGraph\<rparr>,
          \<lparr>quad.subject = NamedNode ''B'', predicate = NamedNode ''label'',
            object = Literal ''bonjour'' ''fr'' ''langString'', graph = DefaultGraph\<rparr>]"
    using example_store by (simp add: f)
  have a: "getAttribute exampleHost ''content-languages'' = None"
    by (simp add: exampleHost_def getAttribute_def)
  have b: "\<forall>q \<in> set (store f). \<forall>l. language (object q) = Some l \<longrightarrow> CHR '','' \<notin> set l"
    by (simp add: st)
  have c: "\<exists>q \<in> set (store f). \<exists>l. language (object q) = Some l \<and> l \<noteq> []"
    by (simp add: st)
  have "contentLanguages (host f) = [''en'', ''fr'']"
    using init_contentLanguages [OF f a b c] by (simp add: st scanLanguages_example)
  then show ?thesis
    by (simp add: f)
qed

text \<open>
  The claim C6 speaks of the statements of the current subject. In the example the
  subject is \<open>A\<close>, whose only literal has the tag \<open>en\<close>, and the content languages
  hold the tag \<open>fr\<close> of the statement about \<open>B\<close> as well. Without a data document no
  tag is observed, and the content languages hold the empty tag, the one piece of the
  empty attribute.
\<close>

theorem init_contentLanguages_other_subject:
  "map_sum id (\<lambda>f. contentLanguages (host f))
     (init exampleFetch exampleParse (newForm exampleHost)) = Inr [''en'', ''fr'']
   \<and> map_sum id (\<lambda>f. observedLanguages (subject f) (store f))
     (init exampleFetch exampleParse (newForm exampleHost)) = Inr [''en'']
   \<and> getAttribute exampleHost ''content-languages'' = None
   \<and> map_sum id (\<lambda>f. contentLanguages (host f))
     (init exampleFetch exampleParse
        (newForm \<lparr>attributes = [''shacl-url'' \<mapsto> ''shapes.ttl''], classList = [], ancestors = []\<rparr>))
     = Inr [[]]
   \<and> map_sum id (\<lambda>f. observedLanguages (subject f) (store f))
     (init exampleFetch exampleParse
        (newForm \<lparr>attributes = [''shacl-url'' \<mapsto> ''shapes.ttl''], classList = [], ancestors = []\<rparr>))
     = Inr []"
proof -
  obtain f where f: "init exampleFetch exampleParse (newForm exampleHost) = Inr f"
    using example_init by blast
  have st: "store f =
     [\<lparr>quad.subject = NamedNode ''A'', predicate = NamedNode ''label'',
            object = Literal ''hello'' ''en'' ''langString'', graph = DefaultGraph\<rparr>,
          \<lparr>quad.subject = NamedNode ''B'', predicate = NamedNode ''label'',
            object = Literal ''bonjour'' ''fr'' ''langString'', graph = DefaultGraph\<rparr>]"
    using example_store by (simp add: f)
  have su: "subject f = NamedNode ''A''"
    using example_subject by (simp add: f)
  have a: "getAttribute exampleHost ''content-languages'' = None"
    by (simp add: exampleHost_def getAttribute_def)
  have "getAttribute (host (newForm exampleHost)) ''content-languages'' = None"
    using a by (simp add: newForm_def)
  then have "closestAttribute (host f) ''content-languages'' = Some (join CHR '','' (scanLanguages (store f)))"
    by (rule init_fields(5) [OF f])
  then have cl: "contentLanguages (host f) = [''en'', ''fr'']"
    by (simp add: contentLanguages_def st scanLanguages_example)
  have ob: "observedLanguages (subject f) (store f) = [''en'']"
    by (simp add: observedLanguages_def st su scanLanguages_def setAdd_def)
  show ?thesis
    using example_no_data by (simp add: f cl ob a)
qed

section \<open>Setting the subject and returning to the old one (C4)\<close>

text \<open>
  C4. The setter renames from the subject that the getter returns, and it never updates
  that subject. After the subject is set from \<open>A\<close> to \<open>B\<close>, setting it to any \<open>C\<close>
  calls the helper with the old subject \<open>A\<close> again; setting it to \<open>A\<close> once more is a
  rename of \<open>A\<close> to itself. So for every helper that leaves the quad set alone when
  the old and the new term are the same, the two calls of the setter leave the quad set
  of the first rename: whenever that rename changed the dataset, the dataset is not
  restored.
\<close>

theorem setSubject_round_trip_fails:
  assumes "\<forall>st t. set (swap st t t) = set st"
      and "set (swap (store this) (subject this) B) \<noteq> set (store this)"
  shows "store (setSubject swap (setSubject swap this B) C)
           = swap (swap (store this) (subject this) B) (subject this) C
         \<and> set (store (setSubject swap (setSubject swap this B) (subject this)))
           = set (swap (store this) (subject this) B)
         \<and> set (store (setSubject swap (setSubject swap this B) (subject this)))
           \<noteq> set (store this)"
proof -
  have twice: "store (setSubject swap (setSubject swap this B) C)
           = swap (swap (store this) (subject this) B) (subject this) C" for C
    by (simp add: setSubject_def)
  have "set (store (setSubject swap (setSubject swap this B) (subject this)))
           = set (swap (store this) (subject this) B)"
    using assms(1) by (simp add: twice)
  with assms(2) twice show ?thesis
    by simp
qed

lemma swapSubject_same: "set (swapSubject st t t) = set st"
proof -
  have "map (\<lambda>q. \<lparr>quad.subject = quad.subject q, predicate = predicate q,
                    object = object q, graph = graph q\<rparr>) st = st"
    by (induction st) simp_all
  then show ?thesis
    by (simp add: swapSubject_def Let_def set_rdfDataset)
qed

theorem setSubject_round_trip_fails_witness:
  "store (setSubject swapSubject
       (setSubject swapSubject
          ((newForm exampleHost)
             \<lparr>subject := NamedNode ''A'',
              store := [\<lparr>quad.subject = NamedNode ''A'', predicate = NamedNode ''label'',
                         object = Literal ''hello'' ''en'' ''langString'', graph = DefaultGraph\<rparr>]\<rparr>)
          (NamedNode ''B''))
       (NamedNode ''A''))
     = [\<lparr>quad.subject = NamedNode ''B'', predicate = NamedNode ''label'',
          object = Literal ''hello'' ''en'' ''langString'', graph = DefaultGraph\<rparr>]
   \<and> set (store (setSubject swapSubject
       (setSubject swapSubject
          ((newForm exampleHost)
             \<lparr>subject := NamedNode ''A'',
              store := [\<lparr>quad.subject = NamedNode ''A'', predicate = NamedNode ''label'',
                         object = Literal ''hello'' ''en'' ''langString'', graph = DefaultGraph\<rparr>]\<rparr>)
          (NamedNode ''B''))
       (NamedNode ''A'')))
     \<noteq> {\<lparr>quad.subject = NamedNode ''A'', predicate = NamedNode ''label'',
          object = Literal ''hello'' ''en'' ''langString'', graph = DefaultGraph\<rparr>}"
proof -
  let ?f = "(newForm exampleHost)
             \<lparr>subject := NamedNode ''A'',
              store := [\<lparr>quad.subject = NamedNode ''A'', predicate = NamedNode ''label'',
                         object = Literal ''hello'' ''en'' ''langString'', graph = DefaultGraph\<rparr>]\<rparr>"
  have same: "\<forall>st t. set (swapSubject st t t) = set st"
    by (simp add: swapSubject_same)
  have first: "swapSubject
       [\<lparr>quad.subject = NamedNode ''A'', predicate = NamedNode ''label'',
          object = Literal ''hello'' ''en'' ''langString'', graph = DefaultGraph\<rparr>]
       (NamedNode ''A'') (NamedNode ''B'')
     = [\<lparr>quad.subject = NamedNode ''B'', predicate = NamedNode ''label'',
          object = Literal ''hello'' ''en'' ''langString'', graph = DefaultGraph\<rparr>]"
    by (simp add: swapSubject_def rdfDataset_def setAdd_def Let_def)
  have changed: "set (swapSubject (store ?f) (subject ?f) (NamedNode ''B'')) \<noteq> set (store ?f)"
    by (simp add: first)
  have second: "swapSubject
       [\<lparr>quad.subject = NamedNode ''B'', predicate = NamedNode ''label'',
          object = Literal ''hello'' ''en'' ''langString'', graph = DefaultGraph\<rparr>]
       (NamedNode ''A'') (NamedNode ''A'')
     = [\<lparr>quad.subject = NamedNode ''B'', predicate = NamedNode ''label'',
          object = Literal ''hello'' ''en'' ''langString'', graph = DefaultGraph\<rparr>]"
    by (simp add: swapSubject_def rdfDataset_def setAdd_def Let_def)
  from setSubject_round_trip_fails [of swapSubject ?f "NamedNode ''B''" "NamedNode ''A''", OF same changed]
  show ?thesis
    by (simp add: first second)
qed

end
